theory Spec2Isabelle
  imports Complex_Main "HOL-Library.AList"
begin

section \<open>Portfolio accounting of \<open>PnLTracker.tsx\<close>\<close>

text \<open>
  The theory embeds the accounting logic of the component \<open>PnLTracker\<close>
  (second definition in \<open>src/components/PnLTracker.tsx\<close>, the one with the daily history):
  the effect that folds the transactions into positions, the effect that tracks the daily
  P&L history, and the handler \<open>addTransaction\<close>.

  JavaScript numbers are modelled as reals: rounding, \<open>NaN\<close> and the infinities are outside
  the model. Component state is passed explicitly; each effect is a function from the state
  it reads to the state it sets.
\<close>

subsection \<open>Data\<close>

datatype txType = Buy | Sell

record Transaction =
  txId :: string
  tokenSymbol :: string
  txType :: txType
  amount :: real
  pricePerToken :: real
  timestamp :: int
  totalValue :: real

record TokenPosition =
  symbol :: string
  totalAmount :: real
  avgCostBasis :: real
  currentPrice :: real
  totalInvested :: real
  currentValue :: real
  pnl :: real
  pnlPercentage :: real
  transactions :: "Transaction list"

text \<open>\<open>TokenPrices\<close> is an object indexed by symbol; a missing key reads \<open>undefined\<close>.\<close>

type_synonym TokenPrices = "string \<rightharpoonup> real"

record DailyPnL =
  date :: string
  portfolioValue :: real
  dailyChange :: real
  dailyChangePercentage :: real

subsection \<open>JavaScript operators used by the component\<close>

text \<open>
  \<open>x || d\<close> on a number that may be \<open>undefined\<close>: \<open>undefined\<close> and \<open>0\<close> are falsy and
  give \<open>d\<close>.
\<close>

definition orElse :: "real option \<Rightarrow> real \<Rightarrow> real" where
  "orElse x d = (case x of None \<Rightarrow> d | Some v \<Rightarrow> if v = 0 then d else v)"

text \<open>\<open>xs[i]\<close> reads \<open>undefined\<close> outside the array, in particular at index \<open>-1\<close>.\<close>

definition elemAt :: "'a list \<Rightarrow> int \<Rightarrow> 'a option" where
  "elemAt xs i = (if 0 \<le> i \<and> i < int (length xs) then Some (xs ! nat i) else None)"

text \<open>\<open>Array.prototype.findIndex\<close>: the index of the first match, \<open>-1\<close> when there is none.\<close>

fun findIndexFrom :: "('a \<Rightarrow> bool) \<Rightarrow> 'a list \<Rightarrow> int \<Rightarrow> int" where
  "findIndexFrom P [] i = - 1"
| "findIndexFrom P (x # xs) i = (if P x then i else findIndexFrom P xs (i + 1))"

definition findIndex :: "('a \<Rightarrow> bool) \<Rightarrow> 'a list \<Rightarrow> int" where
  "findIndex P xs = findIndexFrom P xs 0"

text \<open>\<open>String.prototype.toUpperCase\<close> on ASCII text.\<close>

definition upperChar :: "char \<Rightarrow> char" where
  "upperChar c =
     (let n = (of_char c :: nat) in if 97 \<le> n \<and> n \<le> 122 then char_of (n - 32) else c)"

definition toUpperCase :: "string \<Rightarrow> string" where
  "toUpperCase s = map upperChar s"

subsection \<open>Positions from transactions\<close>

text \<open>
  \<open>positionMap\<close> is an object keyed by the upper-cased symbol. It is kept as an association
  list in insertion order, which is the order \<open>Object.values\<close> enumerates string keys in;
  \<open>AList.update\<close> overwrites an existing key in place and appends a new one. (JavaScript
  enumerates keys that are array indices, such as \<open>42\<close>, before all others; the statements
  below are about membership and sums and do not depend on the order.)
\<close>

type_synonym positionMap = "(string \<times> TokenPosition) list"

definition newPosition :: "TokenPrices \<Rightarrow> string \<Rightarrow> TokenPosition" where
  "newPosition tokenPrices symb =
     \<lparr> symbol = symb, totalAmount = 0, avgCostBasis = 0,
       currentPrice = orElse (tokenPrices symb) 0, totalInvested = 0, currentValue = 0,
       pnl = 0, pnlPercentage = 0, transactions = [] \<rparr>"

text \<open>The position the loop body works on: the stored one, or the one it creates first.\<close>

definition positionOf :: "TokenPrices \<Rightarrow> positionMap \<Rightarrow> string \<Rightarrow> TokenPosition" where
  "positionOf tokenPrices pm symb =
     (case map_of pm symb of None \<Rightarrow> newPosition tokenPrices symb | Some p \<Rightarrow> p)"

definition applyBuy :: "Transaction \<Rightarrow> TokenPosition \<Rightarrow> TokenPosition" where
  "applyBuy t p =
     (let newTotalInvested = totalInvested p + totalValue t;
          newTotalAmount = totalAmount p + amount t
      in p\<lparr> totalInvested := newTotalInvested,
             totalAmount := newTotalAmount,
             avgCostBasis :=
               (if newTotalAmount > 0 then newTotalInvested / newTotalAmount else 0) \<rparr>)"

definition applySell :: "Transaction \<Rightarrow> TokenPosition \<Rightarrow> TokenPosition" where
  "applySell t p =
     (let p1 = p\<lparr> totalAmount := totalAmount p - amount t \<rparr>
      in p1\<lparr> totalInvested := totalInvested p1 - amount t * avgCostBasis p1 \<rparr>)"

text \<open>
  The body of \<open>transactions.forEach\<close>. The loop reads the state array in the order it has
  when the effect runs; the statements below hold for every list.
\<close>

definition applyTransaction :: "TokenPrices \<Rightarrow> positionMap \<Rightarrow> Transaction \<Rightarrow> positionMap" where
  "applyTransaction tokenPrices pm t =
     (let symb = toUpperCase (tokenSymbol t);
          p0 = positionOf tokenPrices pm symb;
          p1 = p0\<lparr> transactions := transactions p0 @ [t] \<rparr>;
          p2 = (if txType t = Buy then applyBuy t p1 else applySell t p1)
      in AList.update symb p2 pm)"

definition foldPositions :: "TokenPrices \<Rightarrow> Transaction list \<Rightarrow> positionMap" where
  "foldPositions tokenPrices ts = foldl (applyTransaction tokenPrices) [] ts"

text \<open>The body of the second loop: current values and P&L.\<close>

definition attachPrice :: "TokenPrices \<Rightarrow> TokenPosition \<Rightarrow> TokenPosition" where
  "attachPrice tokenPrices p =
     (let p1 = p\<lparr> currentPrice := orElse (tokenPrices (symbol p)) 0 \<rparr>;
          p2 = p1\<lparr> currentValue := totalAmount p1 * currentPrice p1 \<rparr>;
          p3 = p2\<lparr> pnl := currentValue p2 - totalInvested p2 \<rparr>
      in p3\<lparr> pnlPercentage :=
               (if totalInvested p3 > 0 then (pnl p3 / totalInvested p3) * 100 else 0) \<rparr>)"

text \<open>The effect "Calculate positions from transactions": the value given to \<open>setPositions\<close>.\<close>

definition calculatePositions :: "TokenPrices \<Rightarrow> Transaction list \<Rightarrow> TokenPosition list" where
  "calculatePositions tokenPrices ts =
     filter (\<lambda>p. totalAmount p > 0)
       (map (attachPrice tokenPrices) (map snd (foldPositions tokenPrices ts)))"

subsection \<open>Daily P&L history\<close>

definition getTotalPortfolioValue :: "TokenPosition list \<Rightarrow> real" where
  "getTotalPortfolioValue positions = foldl (\<lambda>total position. total + currentValue position) 0 positions"

definition mkEntry :: "string \<Rightarrow> real \<Rightarrow> real \<Rightarrow> DailyPnL" where
  "mkEntry today cv previousValue =
     \<lparr> date = today, portfolioValue = cv, dailyChange = cv - previousValue,
       dailyChangePercentage =
         (if previousValue > 0 then ((cv - previousValue) / previousValue) * 100 else 0) \<rparr>"

text \<open>
  The effect "Track daily PnL changes": from the positions, today's date string, the start
  balance and the history it reads, the history it leaves (unchanged when it returns early).
\<close>

definition trackDailyPnL ::
  "TokenPosition list \<Rightarrow> string \<Rightarrow> real \<Rightarrow> DailyPnL list \<Rightarrow> DailyPnL list" where
  "trackDailyPnL positions today startBalance dailyPnLHistory =
     (let cv = getTotalPortfolioValue positions in
      if cv = 0 then dailyPnLHistory
      else
        let existingEntryIndex = findIndex (\<lambda>entry. date entry = today) dailyPnLHistory in
        if existingEntryIndex \<ge> 0 then
          (let previousValue =
                 orElse (map_option portfolioValue (elemAt dailyPnLHistory (existingEntryIndex - 1)))
                   startBalance
           in dailyPnLHistory[nat existingEntryIndex := mkEntry today cv previousValue])
        else
          (let previousValue =
                 (if length dailyPnLHistory > 0
                  then portfolioValue (dailyPnLHistory ! (length dailyPnLHistory - 1))
                  else startBalance)
           in dailyPnLHistory @ [mkEntry today cv previousValue]))"

text \<open>
  The histories the component can hold: it starts empty, and only the effect above writes it
  (what is loaded from storage is what an earlier run saved).
\<close>

inductive reachableHistory :: "DailyPnL list \<Rightarrow> bool" where
  initial: "reachableHistory []"
| sample: "reachableHistory h \<Longrightarrow> reachableHistory (trackDailyPnL positions today startBalance h)"

subsection \<open>Adding a transaction\<close>

text \<open>
  \<open>Date.now()\<close> is an integer; \<open>toString\<close> renders it in decimal.
\<close>

definition digitChar :: "int \<Rightarrow> char" where
  "digitChar d = char_of (48 + d)"

function digitsOf :: "int \<Rightarrow> string" where
  "digitsOf n = (if n < 10 then [digitChar n] else digitsOf (n div 10) @ [digitChar (n mod 10)])"
  by pat_completeness auto
termination
proof (relation "measure nat")
  show "wf (measure nat)" by simp
next
  fix n :: int
  assume "\<not> n < 10"
  then have "nat (n div 10) < nat n" by simp
  then show "(n div 10, n) \<in> measure nat" by simp
qed

declare digitsOf.simps [simp del]

definition toStringInt :: "int \<Rightarrow> string" where
  "toStringInt n = (if n < 0 then CHR ''-'' # digitsOf (- n) else digitsOf n)"

text \<open>
  The form keeps the amount and the price as the strings typed into the inputs.
  \<open>parseFloat\<close> is a parameter of the handler, and so are the two readings of
  \<open>Date.now()\<close>. A string is falsy exactly when it is empty.
\<close>

record NewTransaction =
  formTokenSymbol :: string
  formType :: txType
  formAmount :: string
  formPricePerToken :: string

record TrackerState =
  ledger :: "Transaction list"
  newTransaction :: NewTransaction
  isAddingTransaction :: bool

definition addTransaction :: "(string \<Rightarrow> real) \<Rightarrow> int \<Rightarrow> int \<Rightarrow> TrackerState \<Rightarrow> TrackerState" where
  "addTransaction parseFloat now1 now2 st =
     (let nt = newTransaction st in
      if formTokenSymbol nt = [] \<or> formAmount nt = [] \<or> formPricePerToken nt = [] then st
      else
        let transaction =
              \<lparr> txId = toStringInt now1,
                tokenSymbol = toUpperCase (formTokenSymbol nt),
                txType = formType nt,
                amount = parseFloat (formAmount nt),
                pricePerToken = parseFloat (formPricePerToken nt),
                timestamp = now2,
                totalValue = parseFloat (formAmount nt) * parseFloat (formPricePerToken nt) \<rparr>
        in st\<lparr> ledger := ledger st @ [transaction],
                newTransaction :=
                  \<lparr> formTokenSymbol = [], formType = Buy, formAmount = [], formPricePerToken = [] \<rparr>,
                isAddingTransaction := False \<rparr>)"

text \<open>
  A reading of \<open>parseFloat\<close> on plain decimal literals (an optional minus sign, digits,
  an optional fraction), to run the handler on concrete form input.
\<close>

definition isDigit :: "char \<Rightarrow> bool" where
  "isDigit c = (48 \<le> (of_char c :: nat) \<and> (of_char c :: nat) \<le> 57)"

fun digitsValue :: "nat \<Rightarrow> string \<Rightarrow> nat" where
  "digitsValue acc [] = acc"
| "digitsValue acc (c # cs) = digitsValue (10 * acc + ((of_char c :: nat) - 48)) cs"

definition parseUnsigned :: "string \<Rightarrow> real" where
  "parseUnsigned s =
     (let ip = takeWhile isDigit s;
          fp = (case dropWhile isDigit s of
                  [] \<Rightarrow> []
                | c # r \<Rightarrow> if c = CHR ''.'' then takeWhile isDigit r else [])
      in real (digitsValue 0 ip) + real (digitsValue 0 fp) / 10 ^ length fp)"

definition parseDecimal :: "string \<Rightarrow> real" where
  "parseDecimal s =
     (case s of
        [] \<Rightarrow> 0
      | c # r \<Rightarrow> if c = CHR ''-'' then - parseUnsigned r else parseUnsigned s)"

subsection \<open>Auxiliary notions\<close>

text \<open>Every stored position carries the key it is stored under.\<close>

definition keyed :: "positionMap \<Rightarrow> bool" where
  "keyed pm = list_all (\<lambda>(k, p). symbol p = k) pm"

text \<open>
  The words of the specification: the money spent and the amount bought by a list of
  transactions.
\<close>

definition totalSpent :: "Transaction list \<Rightarrow> real" where
  "totalSpent bs = sum_list (map (\<lambda>b. amount b * pricePerToken b) bs)"

definition totalBought :: "Transaction list \<Rightarrow> real" where
  "totalBought bs = sum_list (map amount bs)"

subsection \<open>Scenarios\<close>

text \<open>
  A ledger entry as \<open>addTransaction\<close> and \<open>convertToPnLTransactions\<close> build it: the total
  value is the amount times the price.
\<close>

definition ledgerEntry :: "int \<Rightarrow> string \<Rightarrow> txType \<Rightarrow> real \<Rightarrow> real \<Rightarrow> Transaction" where
  "ledgerEntry now s ty a p =
     \<lparr> txId = toStringInt now, tokenSymbol = s, txType = ty, amount = a, pricePerToken = p,
       timestamp = now, totalValue = a * p \<rparr>"

definition livePrices :: TokenPrices where
  "livePrices = map_of [(''BTC'', 50000), (''SOL'', 150)]"

definition noPrices :: TokenPrices where
  "noPrices = map_of []"

text \<open>Scenario A: two buys of half a bitcoin. Scenario B sells a fifth afterwards.\<close>

definition scenarioA :: "Transaction list" where
  "scenarioA = [ledgerEntry 1 ''BTC'' Buy (1/2) 45000, ledgerEntry 2 ''btc'' Buy (1/2) 47000]"

definition sellB :: Transaction where
  "sellB = ledgerEntry 3 ''BTC'' Sell (1/5) 52000"

text \<open>Selling three bitcoin while holding one.\<close>

definition sellThree :: Transaction where
  "sellThree = ledgerEntry 3 ''BTC'' Sell 3 52000"

text \<open>Scenario C: one ether bought and sold again, two sol bought.\<close>

definition scenarioC :: "Transaction list" where
  "scenarioC = [ledgerEntry 1 ''ETH'' Buy 1 2000, ledgerEntry 2 ''ETH'' Sell 1 2500,
                ledgerEntry 3 ''SOL'' Buy 2 100]"

definition solPosition :: TokenPosition where
  "solPosition =
     \<lparr> symbol = ''SOL'', totalAmount = 2, avgCostBasis = 100, currentPrice = 150,
       totalInvested = 200, currentValue = 300, pnl = 100, pnlPercentage = 50,
       transactions = [ledgerEntry 3 ''SOL'' Buy 2 100] \<rparr>"

text \<open>Form input with a negative amount, and with the amount left blank.\<close>

definition negativeForm :: TrackerState where
  "negativeForm =
     \<lparr> ledger = [],
       newTransaction = \<lparr> formTokenSymbol = ''btc'', formType = Buy, formAmount = ''-5'',
                          formPricePerToken = ''10'' \<rparr>,
       isAddingTransaction = True \<rparr>"

definition blankForm :: TrackerState where
  "blankForm =
     \<lparr> ledger = scenarioA,
       newTransaction = \<lparr> formTokenSymbol = ''btc'', formType = Buy, formAmount = '''',
                          formPricePerToken = ''10'' \<rparr>,
       isAddingTransaction = True \<rparr>"

text \<open>Two days, and the entry a first sample of 48000 leaves against a start balance of 40000.\<close>

definition monday :: string where
  "monday = ''Mon Nov 02 2026''"

definition tuesday :: string where
  "tuesday = ''Tue Nov 03 2026''"

definition firstSample :: DailyPnL where
  "firstSample = \<lparr> date = tuesday, portfolioValue = 48000, dailyChange = 8000,
                   dailyChangePercentage = 20 \<rparr>"

text \<open>
  Monday's entry for a value of 40000 with nothing before it, and the history that one sample
  of scenario A at live prices leaves on Monday against a start balance of 40000.
\<close>

definition mondaySample :: DailyPnL where
  "mondaySample = \<lparr> date = monday, portfolioValue = 40000, dailyChange = 40000,
                    dailyChangePercentage = 0 \<rparr>"

definition mondayHistory :: "DailyPnL list" where
  "mondayHistory = trackDailyPnL (calculatePositions livePrices scenarioA) monday 40000 []"

section \<open>Properties of the ledger\<close>

text \<open>Every transaction the handler appends records the amount times the price as total value.\<close>

lemma addTransaction_totalValue:
  assumes "\<forall>t\<in>set (ledger st). totalValue t = amount t * pricePerToken t"
  shows "\<forall>t\<in>set (ledger (addTransaction parseFloat now1 now2 st)).
           totalValue t = amount t * pricePerToken t"
  using assms by (simp add: addTransaction_def Let_def)

section \<open>Properties of the position map\<close>

lemma foldPositions_snoc:
  "foldPositions pr (ts @ [t]) = applyTransaction pr (foldPositions pr ts) t"
  by (simp add: foldPositions_def)

lemma map_of_applyTransaction_same:
  "map_of (applyTransaction pr pm t) (toUpperCase (tokenSymbol t)) =
     Some (let p0 = positionOf pr pm (toUpperCase (tokenSymbol t));
               p1 = p0\<lparr> transactions := transactions p0 @ [t] \<rparr>
           in if txType t = Buy then applyBuy t p1 else applySell t p1)"
  by (simp add: applyTransaction_def Let_def update_conv')

lemma map_of_applyTransaction_other:
  "s \<noteq> toUpperCase (tokenSymbol t) \<Longrightarrow> map_of (applyTransaction pr pm t) s = map_of pm s"
  by (simp add: applyTransaction_def Let_def update_conv')

lemma distinct_keys_applyTransaction:
  "distinct (map fst pm) \<Longrightarrow> distinct (map fst (applyTransaction pr pm t))"
  by (simp add: applyTransaction_def Let_def distinct_update)

lemma distinct_keys_foldl:
  "distinct (map fst pm) \<Longrightarrow> distinct (map fst (foldl (applyTransaction pr) pm ts))"
  by (induction ts arbitrary: pm) (simp_all add: distinct_keys_applyTransaction)

lemma distinct_keys_foldPositions: "distinct (map fst (foldPositions pr ts))"
  by (simp add: foldPositions_def distinct_keys_foldl)

lemma keyed_update:
  "keyed pm \<Longrightarrow> symbol p = k \<Longrightarrow> keyed (AList.update k p pm)"
  by (induction pm) (auto simp: keyed_def)

lemma keyed_map_of: "keyed pm \<Longrightarrow> map_of pm k = Some p \<Longrightarrow> symbol p = k"
  by (induction pm) (auto simp: keyed_def split: if_splits)

lemma symbol_positionOf: "keyed pm \<Longrightarrow> symbol (positionOf pr pm k) = k"
  by (auto simp: positionOf_def newPosition_def keyed_map_of split: option.splits)

lemma symbol_applyBuy: "symbol (applyBuy t p) = symbol p"
  by (simp add: applyBuy_def Let_def)

lemma symbol_applySell: "symbol (applySell t p) = symbol p"
  by (simp add: applySell_def Let_def)

lemma keyed_applyTransaction: "keyed pm \<Longrightarrow> keyed (applyTransaction pr pm t)"
  unfolding applyTransaction_def Let_def
  by (rule keyed_update) (simp_all add: symbol_applyBuy symbol_applySell symbol_positionOf)

lemma keyed_foldl: "keyed pm \<Longrightarrow> keyed (foldl (applyTransaction pr) pm ts)"
  by (induction ts arbitrary: pm) (simp_all add: keyed_applyTransaction)

lemma keyed_foldPositions: "keyed (foldPositions pr ts)"
  unfolding foldPositions_def by (rule keyed_foldl) (simp add: keyed_def)

lemma symbol_attachPrice: "symbol (attachPrice pr p) = symbol p"
  by (simp add: attachPrice_def Let_def)

lemma totalAmount_attachPrice: "totalAmount (attachPrice pr p) = totalAmount p"
  by (simp add: attachPrice_def Let_def)

lemma map_symbol_calculatePositions:
  "map symbol (calculatePositions pr ts) =
     map fst (filter (\<lambda>(k, p). 0 < totalAmount p) (foldPositions pr ts))"
proof -
  have "keyed pm \<Longrightarrow>
        map symbol (filter (\<lambda>p. totalAmount p > 0) (map (attachPrice pr) (map snd pm))) =
        map fst (filter (\<lambda>(k, p). 0 < totalAmount p) pm)" for pm
    by (induction pm) (auto simp: keyed_def totalAmount_attachPrice symbol_attachPrice)
  then show ?thesis
    by (simp add: calculatePositions_def keyed_foldPositions)
qed

lemma symbols_calculatePositions:
  "symbol ` set (calculatePositions pr ts) =
     {k. \<exists>p. map_of (foldPositions pr ts) k = Some p \<and> 0 < totalAmount p}"
proof -
  have d: "distinct (map fst (foldPositions pr ts))"
    by (rule distinct_keys_foldPositions)
  have "symbol ` set (calculatePositions pr ts) = set (map symbol (calculatePositions pr ts))"
    by simp
  also have "\<dots> = fst ` {kp \<in> set (foldPositions pr ts). 0 < totalAmount (snd kp)}"
    unfolding map_symbol_calculatePositions by (simp add: case_prod_beta)
  also have "\<dots> = {k. \<exists>p. (k, p) \<in> set (foldPositions pr ts) \<and> 0 < totalAmount p}"
    by force
  also have "\<dots> = {k. \<exists>p. map_of (foldPositions pr ts) k = Some p \<and> 0 < totalAmount p}"
    using d by simp
  finally show ?thesis .
qed

lemma calculatePositions_attached:
  "p \<in> set (calculatePositions pr ts) \<Longrightarrow> \<exists>q. p = attachPrice pr q"
  by (auto simp: calculatePositions_def)

lemma distinct_symbols_calculatePositions:
  "distinct (map symbol (calculatePositions pr ts))"
  unfolding map_symbol_calculatePositions
  by (rule distinct_map_filter) (rule distinct_keys_foldPositions)

lemma positionOf_snoc_same:
  "positionOf pr (foldPositions pr (ts @ [t])) (toUpperCase (tokenSymbol t)) =
     (let p0 = positionOf pr (foldPositions pr ts) (toUpperCase (tokenSymbol t));
          p1 = p0\<lparr> transactions := transactions p0 @ [t] \<rparr>
      in if txType t = Buy then applyBuy t p1 else applySell t p1)"
  by (simp add: positionOf_def foldPositions_snoc map_of_applyTransaction_same)

lemma map_of_snoc_same:
  "map_of (foldPositions pr (ts @ [t])) (toUpperCase (tokenSymbol t)) =
     Some (positionOf pr (foldPositions pr (ts @ [t])) (toUpperCase (tokenSymbol t)))"
  by (simp add: positionOf_def foldPositions_snoc map_of_applyTransaction_same)

lemma buy_step:
  assumes "txType t = Buy"
  shows "totalInvested (positionOf pr (foldPositions pr (ts @ [t])) (toUpperCase (tokenSymbol t))) =
           totalInvested (positionOf pr (foldPositions pr ts) (toUpperCase (tokenSymbol t))) + totalValue t"
    and "totalAmount (positionOf pr (foldPositions pr (ts @ [t])) (toUpperCase (tokenSymbol t))) =
           totalAmount (positionOf pr (foldPositions pr ts) (toUpperCase (tokenSymbol t))) + amount t"
    and "avgCostBasis (positionOf pr (foldPositions pr (ts @ [t])) (toUpperCase (tokenSymbol t))) =
           (if 0 < totalAmount (positionOf pr (foldPositions pr ts) (toUpperCase (tokenSymbol t))) + amount t
            then (totalInvested (positionOf pr (foldPositions pr ts) (toUpperCase (tokenSymbol t))) + totalValue t)
                 / (totalAmount (positionOf pr (foldPositions pr ts) (toUpperCase (tokenSymbol t))) + amount t)
            else 0)"
  using assms by (simp_all add: positionOf_snoc_same applyBuy_def Let_def)

lemma sell_step:
  assumes "txType t = Sell"
  shows "totalInvested (positionOf pr (foldPositions pr (ts @ [t])) (toUpperCase (tokenSymbol t))) =
           totalInvested (positionOf pr (foldPositions pr ts) (toUpperCase (tokenSymbol t)))
           - amount t * avgCostBasis (positionOf pr (foldPositions pr ts) (toUpperCase (tokenSymbol t)))"
    and "totalAmount (positionOf pr (foldPositions pr (ts @ [t])) (toUpperCase (tokenSymbol t))) =
           totalAmount (positionOf pr (foldPositions pr ts) (toUpperCase (tokenSymbol t))) - amount t"
    and "avgCostBasis (positionOf pr (foldPositions pr (ts @ [t])) (toUpperCase (tokenSymbol t))) =
           avgCostBasis (positionOf pr (foldPositions pr ts) (toUpperCase (tokenSymbol t)))"
  using assms by (simp_all add: positionOf_snoc_same applySell_def Let_def)

lemma buys_only_fold:
  assumes "\<forall>b\<in>set bs. txType b = Buy \<and> toUpperCase (tokenSymbol b) = k"
  shows "totalAmount (positionOf pr (foldPositions pr bs) k) = sum_list (map amount bs)
       \<and> totalInvested (positionOf pr (foldPositions pr bs) k) = sum_list (map totalValue bs)
       \<and> (bs \<noteq> [] \<longrightarrow> map_of (foldPositions pr bs) k = Some (positionOf pr (foldPositions pr bs) k)
            \<and> avgCostBasis (positionOf pr (foldPositions pr bs) k)
                = (if 0 < sum_list (map amount bs)
                   then sum_list (map totalValue bs) / sum_list (map amount bs) else 0))"
  using assms
proof (induction bs rule: rev_induct)
  case Nil
  show ?case by (simp add: foldPositions_def positionOf_def newPosition_def)
next
  case (snoc b bs)
  have b: "txType b = Buy" "toUpperCase (tokenSymbol b) = k"
    using snoc.prems by simp_all
  have ih: "totalAmount (positionOf pr (foldPositions pr bs) k) = sum_list (map amount bs)"
           "totalInvested (positionOf pr (foldPositions pr bs) k) = sum_list (map totalValue bs)"
    using snoc by simp_all
  show ?case
    using buy_step [OF b(1), of pr bs] map_of_snoc_same [of pr bs b] ih
    by (simp add: b(2))
qed

section \<open>Properties of the daily history\<close>

lemma findIndexFrom_none:
  "0 \<le> k \<Longrightarrow> (findIndexFrom P xs k < 0) = (\<forall>x\<in>set xs. \<not> P x)"
  by (induction xs arbitrary: k) auto

lemma findIndexFrom_found:
  "0 \<le> k \<Longrightarrow> 0 \<le> findIndexFrom P xs k \<Longrightarrow>
     k \<le> findIndexFrom P xs k \<and> findIndexFrom P xs k < k + int (length xs)
     \<and> P (xs ! nat (findIndexFrom P xs k - k))"
proof (induction xs arbitrary: k)
  case Nil
  then show ?case by simp
next
  case (Cons x xs)
  show ?case
  proof (cases "P x")
    case True
    then show ?thesis by simp
  next
    case False
    with Cons.prems have r: "0 \<le> findIndexFrom P xs (k + 1)" by simp
    have k1: "0 \<le> k + 1" using Cons.prems by simp
    from Cons.IH [OF k1 r] have
      "k + 1 \<le> findIndexFrom P xs (k + 1)"
      "findIndexFrom P xs (k + 1) < k + 1 + int (length xs)"
      "P (xs ! nat (findIndexFrom P xs (k + 1) - (k + 1)))" by simp_all
    moreover from this(1) have
      "nat (findIndexFrom P xs (k + 1) - k) = Suc (nat (findIndexFrom P xs (k + 1) - (k + 1)))"
      by simp
    ultimately show ?thesis using False by simp
  qed
qed

lemma findIndex_none: "(findIndex P xs < 0) = (\<forall>x\<in>set xs. \<not> P x)"
  by (simp add: findIndex_def findIndexFrom_none)

lemma findIndex_found:
  assumes "0 \<le> findIndex P xs"
  shows "nat (findIndex P xs) < length xs" and "P (xs ! nat (findIndex P xs))"
proof -
  from findIndexFrom_found [of 0 P xs] assms
  have b: "findIndex P xs < int (length xs)" and p: "P (xs ! nat (findIndex P xs))"
    by (simp_all add: findIndex_def)
  from b assms show "nat (findIndex P xs) < length xs" by linarith
  from p show "P (xs ! nat (findIndex P xs))" .
qed

lemma trackDailyPnL_existing:
  assumes "getTotalPortfolioValue positions \<noteq> 0"
      and "0 \<le> findIndex (\<lambda>entry. date entry = today) h"
  shows "trackDailyPnL positions today startBalance h =
           h[nat (findIndex (\<lambda>entry. date entry = today) h) :=
               mkEntry today (getTotalPortfolioValue positions)
                 (orElse (map_option portfolioValue
                            (elemAt h (findIndex (\<lambda>entry. date entry = today) h - 1)))
                    startBalance)]"
  using assms by (simp add: trackDailyPnL_def Let_def)

lemma trackDailyPnL_new:
  assumes "getTotalPortfolioValue positions \<noteq> 0"
      and "findIndex (\<lambda>entry. date entry = today) h < 0"
  shows "trackDailyPnL positions today startBalance h =
           h @ [mkEntry today (getTotalPortfolioValue positions)
                  (if h = [] then startBalance else portfolioValue (last h))]"
  using assms by (auto simp: trackDailyPnL_def Let_def last_conv_nth)

lemma dates_trackDailyPnL:
  "map date (trackDailyPnL positions today startBalance h) =
     (if getTotalPortfolioValue positions = 0 \<or> today \<in> date ` set h then map date h
      else map date h @ [today])"
proof (cases "getTotalPortfolioValue positions = 0")
  case True
  then show ?thesis by (simp add: trackDailyPnL_def)
next
  case nz: False
  show ?thesis
  proof (cases "0 \<le> findIndex (\<lambda>entry. date entry = today) h")
    case True
    note f = findIndex_found [OF True]
    have mem: "today \<in> date ` set h"
      using f by (metis imageI nth_mem)
    have "map date (h[nat (findIndex (\<lambda>entry. date entry = today) h) := mkEntry today cv pv]) = map date h" for cv pv
      using f by (simp add: map_update mkEntry_def list_update_same_conv)
    then show ?thesis
      using nz mem by (simp add: trackDailyPnL_existing [OF nz True])
  next
    case False
    then have neg: "findIndex (\<lambda>entry. date entry = today) h < 0" by simp
    then have "today \<notin> date ` set h"
      by (auto simp: findIndex_none)
    then show ?thesis
      using nz by (simp add: trackDailyPnL_new [OF nz neg] mkEntry_def)
  qed
qed

lemma distinct_dates_trackDailyPnL:
  "distinct (map date h) \<Longrightarrow> distinct (map date (trackDailyPnL positions today startBalance h))"
  by (simp add: dates_trackDailyPnL)

lemma reachable_distinct_dates: "reachableHistory h \<Longrightarrow> distinct (map date h)"
  by (induction rule: reachableHistory.induct) (simp_all add: distinct_dates_trackDailyPnL)


lemma findIndexFrom_first:
  "0 \<le> k \<Longrightarrow> 0 \<le> findIndexFrom P xs k \<Longrightarrow> j < nat (findIndexFrom P xs k - k) \<Longrightarrow> \<not> P (xs ! j)"
proof (induction xs arbitrary: k j)
  case Nil
  then show ?case by simp
next
  case (Cons x xs)
  show ?case
  proof (cases "P x")
    case True
    with Cons.prems show ?thesis by simp
  next
    case False
    with Cons.prems have r: "0 \<le> findIndexFrom P xs (k + 1)"
      and j: "j < nat (findIndexFrom P xs (k + 1) - k)" by simp_all
    have k1: "0 \<le> k + 1" using Cons.prems by simp
    show ?thesis
    proof (cases j)
      case 0
      with False show ?thesis by simp
    next
      case (Suc j')
      with j have "j' < nat (findIndexFrom P xs (k + 1) - (k + 1))" by linarith
      from Cons.IH [OF k1 r this] Suc show ?thesis by simp
    qed
  qed
qed

lemma findIndex_first:
  "0 \<le> findIndex P xs \<Longrightarrow> j < nat (findIndex P xs) \<Longrightarrow> \<not> P (xs ! j)"
  using findIndexFrom_first [of 0 P xs j] by (simp add: findIndex_def)

lemma findIndex_member: "(0 \<le> findIndex P xs) = (\<exists>x\<in>set xs. P x)"
  using findIndex_none [of P xs] by auto

section \<open>The scenarios, evaluated\<close>

lemma upper_BTC: "toUpperCase ''BTC'' = ''BTC''" by code_simp
lemma upper_btc: "toUpperCase ''btc'' = ''BTC''" by code_simp

lemma positionOf_scenarioA:
  "totalAmount (positionOf livePrices (foldPositions livePrices scenarioA) ''BTC'') = 1"
  "totalInvested (positionOf livePrices (foldPositions livePrices scenarioA) ''BTC'') = 46000"
  "avgCostBasis (positionOf livePrices (foldPositions livePrices scenarioA) ''BTC'') = 46000"
  by code_simp+

lemma held_after_first_buy:
  "totalAmount (positionOf livePrices (foldPositions livePrices [ledgerEntry 1 ''BTC'' Buy (1/2) 45000])
      ''BTC'') = 1/2"
  by code_simp

lemma sellB_facts: "txType sellB = Sell" "toUpperCase (tokenSymbol sellB) = ''BTC''" "amount sellB = 1/5"
  by (simp_all add: sellB_def ledgerEntry_def upper_BTC)

lemma sellThree_facts:
  "txType sellThree = Sell" "toUpperCase (tokenSymbol sellThree) = ''BTC''" "amount sellThree = 3"
  by (simp_all add: sellThree_def ledgerEntry_def upper_BTC)

lemma fold_scenarioC:
  "map_option totalAmount (map_of (foldPositions livePrices scenarioC) ''ETH'') = Some 0"
  "map_option totalAmount (map_of (foldPositions livePrices scenarioC) ''SOL'') = Some 2"
  by code_simp+

lemma calculate_scenarioC: "calculatePositions livePrices scenarioC = [solPosition]"
  by code_simp

lemma orElse_zero: "orElse x 0 = (case x of None \<Rightarrow> 0 | Some v \<Rightarrow> v)"
  by (simp add: orElse_def split: option.splits)

lemma total_scenarioA: "getTotalPortfolioValue (calculatePositions livePrices scenarioA) = 50000"
  by code_simp

lemma total_unpriced: "getTotalPortfolioValue (calculatePositions noPrices scenarioA) = 0"
  by code_simp

lemma mondayHistory_eval:
  "mondayHistory = [\<lparr> date = monday, portfolioValue = 50000, dailyChange = 10000,
                      dailyChangePercentage = 25 \<rparr>]"
  by code_simp

lemma days_differ: "monday \<noteq> tuesday"
  by (simp add: monday_def tuesday_def)

lemma reachable_mondayHistory: "reachableHistory mondayHistory"
  unfolding mondayHistory_def by (intro reachableHistory.intros)

section \<open>Buys and the average cost\<close>

text \<open>
  C1. Let a buy of amount \<open>a\<close> at unit price \<open>p\<close>, recorded with the total value \<open>a * p\<close>
  as the component records it, be folded after any transactions, and let the held amount stay
  above 0. The position of its symbol then has \<open>invested' = invested + a * p\<close>,
  \<open>held' = held + a\<close> and the average cost \<open>invested' / held'\<close>. Consequently a ledger of
  buys for one symbol that holds more than 0 in total yields the average cost total spent
  divided by total bought, exactly.
\<close>

theorem average_cost_of_buys:
  "(txType t = Buy \<and> totalValue t = amount t * pricePerToken t
      \<and> 0 < totalAmount (positionOf pr (foldPositions pr ts) (toUpperCase (tokenSymbol t)))
              + amount t \<longrightarrow>
      (\<exists>p'. map_of (foldPositions pr (ts @ [t])) (toUpperCase (tokenSymbol t)) = Some p'
         \<and> totalInvested p' =
             totalInvested (positionOf pr (foldPositions pr ts) (toUpperCase (tokenSymbol t)))
             + amount t * pricePerToken t
         \<and> totalAmount p' =
             totalAmount (positionOf pr (foldPositions pr ts) (toUpperCase (tokenSymbol t)))
             + amount t
         \<and> avgCostBasis p' = totalInvested p' / totalAmount p'))
   \<and> ((\<forall>b\<in>set bs. txType b = Buy \<and> toUpperCase (tokenSymbol b) = k
                        \<and> totalValue b = amount b * pricePerToken b)
        \<and> 0 < totalBought bs \<longrightarrow>
      (\<exists>q. map_of (foldPositions pr bs) k = Some q
         \<and> totalAmount q = totalBought bs
         \<and> totalInvested q = totalSpent bs
         \<and> avgCostBasis q = totalSpent bs / totalBought bs))"
proof (intro conjI impI)
  assume h: "txType t = Buy \<and> totalValue t = amount t * pricePerToken t
      \<and> 0 < totalAmount (positionOf pr (foldPositions pr ts) (toUpperCase (tokenSymbol t)))
              + amount t"
  then have b: "txType t = Buy" and v: "totalValue t = amount t * pricePerToken t"
    and pos: "0 < totalAmount (positionOf pr (foldPositions pr ts) (toUpperCase (tokenSymbol t)))
                  + amount t"
    by simp_all
  show "\<exists>p'. map_of (foldPositions pr (ts @ [t])) (toUpperCase (tokenSymbol t)) = Some p'
         \<and> totalInvested p' =
             totalInvested (positionOf pr (foldPositions pr ts) (toUpperCase (tokenSymbol t)))
             + amount t * pricePerToken t
         \<and> totalAmount p' =
             totalAmount (positionOf pr (foldPositions pr ts) (toUpperCase (tokenSymbol t)))
             + amount t
         \<and> avgCostBasis p' = totalInvested p' / totalAmount p'"
    using map_of_snoc_same [of pr ts t] buy_step [OF b, of pr ts] v pos by simp
next
  assume h: "(\<forall>b\<in>set bs. txType b = Buy \<and> toUpperCase (tokenSymbol b) = k
                        \<and> totalValue b = amount b * pricePerToken b)
        \<and> 0 < totalBought bs"
  then have all: "\<forall>b\<in>set bs. txType b = Buy \<and> toUpperCase (tokenSymbol b) = k"
    and tv: "\<forall>b\<in>set bs. totalValue b = amount b * pricePerToken b"
    and pos: "0 < totalBought bs"
    by simp_all
  have ne: "bs \<noteq> []"
    using pos by (auto simp: totalBought_def)
  have m: "map totalValue bs = map (\<lambda>b. amount b * pricePerToken b) bs"
    using tv by simp
  have spent: "sum_list (map totalValue bs) = totalSpent bs"
    by (simp only: totalSpent_def m)
  show "\<exists>q. map_of (foldPositions pr bs) k = Some q
         \<and> totalAmount q = totalBought bs
         \<and> totalInvested q = totalSpent bs
         \<and> avgCostBasis q = totalSpent bs / totalBought bs"
    using buys_only_fold [OF all, of pr] ne spent pos by (simp add: totalBought_def)
qed

text \<open>
  Scenario A: half a bitcoin at 45000 and half a bitcoin at 47000 give held 1, invested 46000
  and average cost 46000.
\<close>

theorem average_cost_of_buys_witness:
  "txType (ledgerEntry 2 ''btc'' Buy (1/2) 47000) = Buy
   \<and> 0 < totalBought scenarioA
   \<and> (\<exists>q. map_of (foldPositions livePrices scenarioA) ''BTC'' = Some q
         \<and> totalAmount q = 1 \<and> totalInvested q = 46000 \<and> avgCostBasis q = 46000)"
proof -
  let ?t = "ledgerEntry 2 ''btc'' Buy (1/2) 47000"
  let ?ts = "[ledgerEntry 1 ''BTC'' Buy (1/2) 45000]"
  have a: "scenarioA = ?ts @ [?t]"
    by (simp add: scenarioA_def)
  have k: "toUpperCase (tokenSymbol ?t) = ''BTC''"
    by (simp add: ledgerEntry_def upper_btc)
  have h1: "txType ?t = Buy \<and> totalValue ?t = amount ?t * pricePerToken ?t
            \<and> 0 < totalAmount (positionOf livePrices (foldPositions livePrices ?ts)
                                  (toUpperCase (tokenSymbol ?t))) + amount ?t"
    by (simp add: k held_after_first_buy) (simp add: ledgerEntry_def)
  have s: "totalSpent scenarioA = 46000" "totalBought scenarioA = 1"
    by (simp_all add: totalSpent_def totalBought_def scenarioA_def ledgerEntry_def)
  have h2: "(\<forall>b\<in>set scenarioA. txType b = Buy \<and> toUpperCase (tokenSymbol b) = ''BTC''
               \<and> totalValue b = amount b * pricePerToken b)
            \<and> 0 < totalBought scenarioA"
    by (simp add: s) (simp add: scenarioA_def ledgerEntry_def upper_BTC upper_btc)
  note inst = average_cost_of_buys [where t = ?t and bs = scenarioA and k = "''BTC''"
                and pr = livePrices and ts = ?ts]
  from inst h1 have step:
    "\<exists>p'. map_of (foldPositions livePrices (?ts @ [?t])) (toUpperCase (tokenSymbol ?t)) = Some p'
        \<and> avgCostBasis p' = totalInvested p' / totalAmount p'"
    by blast
  from inst h2 have
    "\<exists>q. map_of (foldPositions livePrices scenarioA) ''BTC'' = Some q
         \<and> totalAmount q = totalBought scenarioA
         \<and> totalInvested q = totalSpent scenarioA
         \<and> avgCostBasis q = totalSpent scenarioA / totalBought scenarioA"
    by blast
  then show ?thesis using h1 s by simp
qed

section \<open>Sells\<close>

text \<open>
  C2. Let a sell of amount \<open>a\<close> be folded after any transactions. The position of its symbol
  then has \<open>held' = held - a\<close> and \<open>invested' = invested - a * avgCost\<close>, with the average
  cost from before the sell, and the same average cost as before. The price of the sale does
  not enter.
\<close>

theorem sell_keeps_average_cost:
  assumes "txType t = Sell"
  shows "\<exists>p'. map_of (foldPositions pr (ts @ [t])) (toUpperCase (tokenSymbol t)) = Some p'
           \<and> totalAmount p' =
               totalAmount (positionOf pr (foldPositions pr ts) (toUpperCase (tokenSymbol t)))
               - amount t
           \<and> totalInvested p' =
               totalInvested (positionOf pr (foldPositions pr ts) (toUpperCase (tokenSymbol t)))
               - amount t
                 * avgCostBasis (positionOf pr (foldPositions pr ts) (toUpperCase (tokenSymbol t)))
           \<and> avgCostBasis p' =
               avgCostBasis (positionOf pr (foldPositions pr ts) (toUpperCase (tokenSymbol t)))"
  using map_of_snoc_same [of pr ts t] sell_step [OF assms, of pr ts] by simp

text \<open>
  Scenario B: after scenario A, a fifth of a bitcoin sold at 52000 leaves held \<open>4/5\<close>, invested
  36800 and the average cost 46000.
\<close>

theorem sell_keeps_average_cost_witness:
  "txType sellB = Sell
   \<and> (\<exists>p'. map_of (foldPositions livePrices (scenarioA @ [sellB])) ''BTC'' = Some p'
          \<and> totalAmount p' = 4/5 \<and> totalInvested p' = 36800 \<and> avgCostBasis p' = 46000)"
  using sell_keeps_average_cost [OF sellB_facts(1), of livePrices scenarioA]
  by (simp add: sellB_facts positionOf_scenarioA)

text \<open>
  C5. A sell of more than is held is not rejected. The amount is subtracted all the same, the
  position of the symbol is stored with a negative held amount, and the symbol is missing
  from the positions reported after this sell.
\<close>

theorem oversell_is_applied:
  assumes "txType t = Sell"
      and "totalAmount (positionOf pr (foldPositions pr ts) (toUpperCase (tokenSymbol t))) < amount t"
  shows "\<exists>p'. map_of (foldPositions pr (ts @ [t])) (toUpperCase (tokenSymbol t)) = Some p'
           \<and> totalAmount p' =
               totalAmount (positionOf pr (foldPositions pr ts) (toUpperCase (tokenSymbol t)))
               - amount t
           \<and> totalAmount p' < 0
           \<and> toUpperCase (tokenSymbol t) \<notin> symbol ` set (calculatePositions pr (ts @ [t]))"
proof -
  let ?k = "toUpperCase (tokenSymbol t)"
  let ?p' = "positionOf pr (foldPositions pr (ts @ [t])) ?k"
  have m: "map_of (foldPositions pr (ts @ [t])) ?k = Some ?p'"
    by (rule map_of_snoc_same)
  have a: "totalAmount ?p' = totalAmount (positionOf pr (foldPositions pr ts) ?k) - amount t"
    by (rule sell_step(2) [OF assms(1)])
  have neg: "totalAmount ?p' < 0"
    using a assms(2) by simp
  have "?k \<notin> symbol ` set (calculatePositions pr (ts @ [t]))"
    unfolding symbols_calculatePositions using m neg by simp
  with m a neg show ?thesis by blast
qed

text \<open>Three bitcoin sold against the one held after scenario A: held is \<open>-2\<close>.\<close>

theorem oversell_is_applied_witness:
  "txType sellThree = Sell
   \<and> totalAmount (positionOf livePrices (foldPositions livePrices scenarioA) ''BTC'') < amount sellThree
   \<and> (\<exists>p'. map_of (foldPositions livePrices (scenarioA @ [sellThree])) ''BTC'' = Some p'
          \<and> totalAmount p' = - 2)
   \<and> ''BTC'' \<notin> symbol ` set (calculatePositions livePrices (scenarioA @ [sellThree]))"
proof -
  have h: "totalAmount (positionOf livePrices (foldPositions livePrices scenarioA)
              (toUpperCase (tokenSymbol sellThree))) < amount sellThree"
    by (simp add: sellThree_facts positionOf_scenarioA)
  from oversell_is_applied [OF sellThree_facts(1) h]
  obtain p' where "map_of (foldPositions livePrices (scenarioA @ [sellThree])) ''BTC'' = Some p'"
    and "totalAmount p' = - 2"
    and "''BTC'' \<notin> symbol ` set (calculatePositions livePrices (scenarioA @ [sellThree]))"
    by (auto simp: sellThree_facts positionOf_scenarioA)
  with h show ?thesis
    by (simp add: sellThree_facts)
qed

section \<open>The reported positions\<close>

text \<open>
  C6. The reported positions have exactly the symbols whose folded held amount is greater
  than 0, each once; no reported position has a held amount of 0 or less.
\<close>

theorem reported_symbols:
  "symbol ` set (calculatePositions pr ts) =
     {k. \<exists>p. map_of (foldPositions pr ts) k = Some p \<and> 0 < totalAmount p}
   \<and> distinct (map symbol (calculatePositions pr ts))
   \<and> (\<forall>p\<in>set (calculatePositions pr ts). 0 < totalAmount p)"
  by (simp add: symbols_calculatePositions distinct_symbols_calculatePositions)
     (simp add: calculatePositions_def)

text \<open>
  Scenario C: the ether bought and sold again has held 0 and is not reported; the sol is.
\<close>

theorem reported_symbols_witness:
  "''ETH'' \<notin> symbol ` set (calculatePositions livePrices scenarioC)
   \<and> ''SOL'' \<in> symbol ` set (calculatePositions livePrices scenarioC)
   \<and> solPosition \<in> set (calculatePositions livePrices scenarioC)
   \<and> 0 < totalAmount solPosition"
proof -
  from reported_symbols [of livePrices scenarioC]
  have s: "symbol ` set (calculatePositions livePrices scenarioC) =
             {k. \<exists>p. map_of (foldPositions livePrices scenarioC) k = Some p \<and> 0 < totalAmount p}"
    and a: "\<forall>p\<in>set (calculatePositions livePrices scenarioC). 0 < totalAmount p"
    by simp_all
  have m: "solPosition \<in> set (calculatePositions livePrices scenarioC)"
    by (simp add: calculate_scenarioC)
  have e: "''ETH'' \<notin> symbol ` set (calculatePositions livePrices scenarioC)"
    unfolding s using fold_scenarioC(1) by auto
  have o: "''SOL'' \<in> symbol ` set (calculatePositions livePrices scenarioC)"
    unfolding s using fold_scenarioC(2) by auto
  from e o m a show ?thesis by blast
qed

text \<open>
  C9. Every reported position has as current price the entry of the price map for its
  symbol, or 0 when there is none; current value \<open>held * currentPrice\<close>; P&L
  \<open>currentValue - invested\<close>; and P&L percentage \<open>pnl / invested * 100\<close> when
  \<open>invested > 0\<close>, and 0 otherwise.
\<close>

theorem derived_fields:
  assumes "p \<in> set (calculatePositions pr ts)"
  shows "currentPrice p = (case pr (symbol p) of None \<Rightarrow> 0 | Some v \<Rightarrow> v)
       \<and> currentValue p = totalAmount p * currentPrice p
       \<and> pnl p = currentValue p - totalInvested p
       \<and> pnlPercentage p = (if 0 < totalInvested p then pnl p / totalInvested p * 100 else 0)"
proof -
  from calculatePositions_attached [OF assms] obtain q where "p = attachPrice pr q" ..
  then show ?thesis
    by (simp add: attachPrice_def Let_def orElse_zero)
qed

text \<open>Two sol bought at 100 and priced at 150: value 300, P&L 100, 50 percent.\<close>

theorem derived_fields_witness:
  "solPosition \<in> set (calculatePositions livePrices scenarioC)
   \<and> currentPrice solPosition = 150 \<and> currentValue solPosition = 2 * 150
   \<and> pnl solPosition = 300 - 200 \<and> pnlPercentage solPosition = 100 / 200 * 100"
proof -
  have m: "solPosition \<in> set (calculatePositions livePrices scenarioC)"
    by (simp add: calculate_scenarioC)
  have f: "symbol solPosition = ''SOL''" "totalAmount solPosition = 2" "totalInvested solPosition = 200"
    by (simp_all add: solPosition_def)
  have pr: "livePrices ''SOL'' = Some 150"
    by (simp add: livePrices_def)
  from derived_fields [OF m] m show ?thesis
    by (simp add: f pr)
qed


section \<open>The daily history\<close>

text \<open>
  C10. When the total value of the positions is exactly 0 the daily tracking effect returns
  before it touches the history: the history is left as it is, whether it is empty, holds an
  entry for today, or neither.
\<close>

theorem zero_value_leaves_history:
  assumes "getTotalPortfolioValue positions = 0"
  shows "trackDailyPnL positions today startBalance dailyPnLHistory = dailyPnLHistory"
  using assms by (simp add: trackDailyPnL_def)

text \<open>
  Scenario A without prices is worth 0: the history with Tuesday's entry and the empty history
  both stay as they are.
\<close>

theorem zero_value_leaves_history_witness:
  "getTotalPortfolioValue (calculatePositions noPrices scenarioA) = 0
   \<and> trackDailyPnL (calculatePositions noPrices scenarioA) tuesday 40000 [firstSample] = [firstSample]
   \<and> trackDailyPnL (calculatePositions noPrices scenarioA) tuesday 40000 [] = []"
  using zero_value_leaves_history [OF total_unpriced] total_unpriced by simp

text \<open>
  C8. A sample of a non-zero total value on a date without an entry appends one entry. Its
  previous value is the value of the last entry, or the start balance when the history is
  empty; it records the change \<open>value - previous\<close> and the percentage
  \<open>change / previous * 100\<close> when \<open>previous > 0\<close>, and 0 otherwise, so 0 when the previous
  value is 0.
\<close>

theorem new_entry_previous_value:
  assumes "getTotalPortfolioValue positions \<noteq> 0"
      and "today \<notin> date ` set h"
      and "prev = (if h = [] then startBalance else portfolioValue (last h))"
  shows "trackDailyPnL positions today startBalance h =
           h @ [\<lparr> date = today, portfolioValue = getTotalPortfolioValue positions,
                   dailyChange = getTotalPortfolioValue positions - prev,
                   dailyChangePercentage =
                     (if 0 < prev then (getTotalPortfolioValue positions - prev) / prev * 100
                      else 0) \<rparr>]
       \<and> (prev = 0 \<longrightarrow> dailyChangePercentage (last (trackDailyPnL positions today startBalance h)) = 0)"
proof -
  have neg: "findIndex (\<lambda>entry. date entry = today) h < 0"
    using assms(2) by (auto simp: findIndex_none)
  show ?thesis
    using trackDailyPnL_new [OF assms(1) neg, of startBalance] assms(3)
    by (simp add: mkEntry_def)
qed

text \<open>
  Scenario D: no start balance and no entry, so the percentage is 0; and after Monday's 40000
  a value of 50000 is a change of 10000, 25 percent.
\<close>

theorem new_entry_previous_value_witness:
  "getTotalPortfolioValue (calculatePositions livePrices scenarioA) \<noteq> 0
   \<and> tuesday \<notin> date ` set []
   \<and> trackDailyPnL (calculatePositions livePrices scenarioA) tuesday 0 [] =
       [\<lparr> date = tuesday, portfolioValue = 50000, dailyChange = 50000, dailyChangePercentage = 0 \<rparr>]
   \<and> trackDailyPnL (calculatePositions livePrices scenarioA) tuesday 0 [mondaySample] =
       [mondaySample,
        \<lparr> date = tuesday, portfolioValue = 50000, dailyChange = 10000, dailyChangePercentage = 25 \<rparr>]"
proof -
  have nz: "getTotalPortfolioValue (calculatePositions livePrices scenarioA) \<noteq> 0"
    by (simp add: total_scenarioA)
  have n1: "tuesday \<notin> date ` set []" by simp
  have n2: "tuesday \<notin> date ` set [mondaySample]"
    using days_differ by (simp add: mondaySample_def)
  have p1: "(0::real) = (if [] = ([]::DailyPnL list) then 0 else portfolioValue (last []))" by simp
  have p2: "(40000::real) = (if [mondaySample] = [] then 0 else portfolioValue (last [mondaySample]))"
    by (simp add: mondaySample_def)
  from new_entry_previous_value [OF nz n1 p1] new_entry_previous_value [OF nz n2 p2] nz
  show ?thesis by (simp add: total_scenarioA)
qed

text \<open>
  C4, as amended. A sample of a non-zero total value on a date that has an entry overwrites
  the first entry of that date in place and leaves all others. Its previous value is the
  value of the entry just before the overwritten one (for a history that ends with today's
  entry, the second entry from the end), or the start balance when there is no entry before
  it or that value is 0. The value the overwritten entry held does not enter.
\<close>

theorem resample_overwrites_in_place:
  assumes "getTotalPortfolioValue positions \<noteq> 0"
      and "today \<in> date ` set h"
  shows "\<exists>i prev. i < length h \<and> date (h ! i) = today \<and> (\<forall>j<i. date (h ! j) \<noteq> today)
           \<and> prev = (if 0 < i \<and> portfolioValue (h ! (i - 1)) \<noteq> 0
                      then portfolioValue (h ! (i - 1)) else startBalance)
           \<and> trackDailyPnL positions today startBalance h =
               h[i := \<lparr> date = today, portfolioValue = getTotalPortfolioValue positions,
                        dailyChange = getTotalPortfolioValue positions - prev,
                        dailyChangePercentage =
                          (if 0 < prev then (getTotalPortfolioValue positions - prev) / prev * 100
                           else 0) \<rparr>]"
proof -
  let ?r = "findIndex (\<lambda>entry. date entry = today) h"
  let ?i = "nat ?r"
  have found: "0 \<le> ?r"
    using assms(2) by (auto simp: findIndex_member)
  note f = findIndex_found [OF found]
  have first: "\<forall>j<?i. date (h ! j) \<noteq> today"
    using findIndex_first [OF found] by blast
  define pv where "pv = (if 0 < ?i \<and> portfolioValue (h ! (?i - 1)) \<noteq> 0
                         then portfolioValue (h ! (?i - 1)) else startBalance)"
  have prev: "orElse (map_option portfolioValue (elemAt h (?r - 1))) startBalance = pv"
  proof (cases "?r = 0")
    case True
    then show ?thesis by (simp add: elemAt_def orElse_def pv_def)
  next
    case False
    with found have pos: "0 < ?r" by simp
    then have n: "nat (?r - 1) = ?i - 1" by simp
    have "?r - 1 < int (length h)" using f(1) pos by linarith
    then show ?thesis using pos n by (simp add: elemAt_def orElse_def pv_def)
  qed
  have eq: "trackDailyPnL positions today startBalance h =
              h[?i := \<lparr> date = today, portfolioValue = getTotalPortfolioValue positions,
                        dailyChange = getTotalPortfolioValue positions - pv,
                        dailyChangePercentage =
                          (if 0 < pv then (getTotalPortfolioValue positions - pv) / pv * 100
                           else 0) \<rparr>]"
    using trackDailyPnL_existing [OF assms(1) found, of startBalance]
    by (simp add: prev mkEntry_def)
  from f(1) f(2) first pv_def eq show ?thesis
    by blast
qed

text \<open>
  Monday at 40000, Tuesday first sampled at 48000: sampling 50000 again on Tuesday compares
  with Monday's 40000, not with 48000 and not with the start balance 1000.
\<close>

theorem resample_overwrites_in_place_witness:
  "getTotalPortfolioValue (calculatePositions livePrices scenarioA) \<noteq> 0
   \<and> tuesday \<in> date ` set [mondaySample, firstSample]
   \<and> trackDailyPnL (calculatePositions livePrices scenarioA) tuesday 1000 [mondaySample, firstSample] =
       [mondaySample,
        \<lparr> date = tuesday, portfolioValue = 50000, dailyChange = 10000, dailyChangePercentage = 25 \<rparr>]"
proof -
  let ?h = "[mondaySample, firstSample]"
  have nz: "getTotalPortfolioValue (calculatePositions livePrices scenarioA) \<noteq> 0"
    by (simp add: total_scenarioA)
  have mem: "tuesday \<in> date ` set ?h"
    by (simp add: firstSample_def)
  from resample_overwrites_in_place [OF nz mem, of 1000]
  obtain i prev where i: "i < length ?h" and d: "date (?h ! i) = tuesday"
    and p: "prev = (if 0 < i \<and> portfolioValue (?h ! (i - 1)) \<noteq> 0
                    then portfolioValue (?h ! (i - 1)) else 1000)"
    and eq: "trackDailyPnL (calculatePositions livePrices scenarioA) tuesday 1000 ?h =
               ?h[i := \<lparr> date = tuesday,
                          portfolioValue = getTotalPortfolioValue (calculatePositions livePrices scenarioA),
                          dailyChange = getTotalPortfolioValue (calculatePositions livePrices scenarioA) - prev,
                          dailyChangePercentage =
                            (if 0 < prev
                             then (getTotalPortfolioValue (calculatePositions livePrices scenarioA) - prev)
                                  / prev * 100
                             else 0) \<rparr>]"
    by blast
  have "i \<noteq> 0"
  proof
    assume "i = 0"
    with d have "monday = tuesday" by (simp add: mondaySample_def)
    with days_differ show False by simp
  qed
  with i have i1: "i = 1" by simp
  have pv: "prev = 40000"
    using p by (simp add: i1 mondaySample_def)
  show ?thesis
    using nz mem eq by (simp add: i1 pv total_scenarioA)
qed

text \<open>
  C4 as it is stated fails where today's entry is the only one: no entry was recorded before
  today's first sample, and the previous value is the start balance 40000.
\<close>

theorem resample_first_day_uses_start_balance:
  "trackDailyPnL (calculatePositions livePrices scenarioA) tuesday 40000 [firstSample] =
     [\<lparr> date = tuesday, portfolioValue = 50000, dailyChange = 50000 - 40000,
        dailyChangePercentage = 25 \<rparr>]
   \<and> portfolioValue firstSample = 48000"
  by code_simp

text \<open>
  C7, as amended. A reachable history has at most one entry per date, and keeps that after any
  sample. A sample of a non-zero total value on a date that has an entry overwrites one entry
  of that date in place; on a date without an entry it appends exactly one entry, of that
  date.
\<close>

theorem one_entry_per_date:
  assumes "reachableHistory h"
  shows "distinct (map date h)
       \<and> distinct (map date (trackDailyPnL positions today startBalance h))
       \<and> (getTotalPortfolioValue positions \<noteq> 0 \<and> today \<in> date ` set h \<longrightarrow>
            (\<exists>i e. i < length h \<and> date (h ! i) = today \<and> date e = today
               \<and> trackDailyPnL positions today startBalance h = h[i := e]))
       \<and> (getTotalPortfolioValue positions \<noteq> 0 \<and> today \<notin> date ` set h \<longrightarrow>
            (\<exists>e. date e = today \<and> trackDailyPnL positions today startBalance h = h @ [e]))"
proof (intro conjI impI)
  show d: "distinct (map date h)"
    by (rule reachable_distinct_dates [OF assms])
  show "distinct (map date (trackDailyPnL positions today startBalance h))"
    by (rule distinct_dates_trackDailyPnL [OF d])
next
  assume a: "getTotalPortfolioValue positions \<noteq> 0 \<and> today \<in> date ` set h"
  then have found: "0 \<le> findIndex (\<lambda>entry. date entry = today) h"
    by (auto simp: findIndex_member)
  from a have nz: "getTotalPortfolioValue positions \<noteq> 0" by simp
  note f = findIndex_found [OF found]
  have "date (mkEntry today cv pv) = today" for cv pv
    by (simp add: mkEntry_def)
  with f trackDailyPnL_existing [OF nz found, of startBalance]
  show "\<exists>i e. i < length h \<and> date (h ! i) = today \<and> date e = today
          \<and> trackDailyPnL positions today startBalance h = h[i := e]"
    by blast
next
  assume a: "getTotalPortfolioValue positions \<noteq> 0 \<and> today \<notin> date ` set h"
  then have neg: "findIndex (\<lambda>entry. date entry = today) h < 0"
    by (auto simp: findIndex_none)
  from a have nz: "getTotalPortfolioValue positions \<noteq> 0" by simp
  have "date (mkEntry today cv pv) = today" for cv pv
    by (simp add: mkEntry_def)
  with trackDailyPnL_new [OF nz neg, of startBalance]
  show "\<exists>e. date e = today \<and> trackDailyPnL positions today startBalance h = h @ [e]"
    by blast
qed

text \<open>
  After one sample on Monday, a second sample on Monday leaves one entry, and a sample on
  Tuesday leaves the two dates.
\<close>

theorem one_entry_per_date_witness:
  "reachableHistory mondayHistory
   \<and> length mondayHistory = 1
   \<and> length (trackDailyPnL (calculatePositions livePrices scenarioA) monday 40000 mondayHistory) = 1
   \<and> map date (trackDailyPnL (calculatePositions livePrices scenarioA) tuesday 40000 mondayHistory)
       = [monday, tuesday]"
proof -
  let ?P = "calculatePositions livePrices scenarioA"
  have nz: "getTotalPortfolioValue ?P \<noteq> 0"
    by (simp add: total_scenarioA)
  have m: "monday \<in> date ` set mondayHistory"
    by (simp add: mondayHistory_eval)
  have t: "tuesday \<notin> date ` set mondayHistory"
    using days_differ by (simp add: mondayHistory_eval)
  from one_entry_per_date [OF reachable_mondayHistory, of ?P monday 40000] nz m
  obtain i e where "trackDailyPnL ?P monday 40000 mondayHistory = mondayHistory[i := e]"
    by blast
  then have "length (trackDailyPnL ?P monday 40000 mondayHistory) = length mondayHistory"
    by simp
  then have l: "length (trackDailyPnL ?P monday 40000 mondayHistory) = 1"
    by (simp add: mondayHistory_eval)
  from one_entry_per_date [OF reachable_mondayHistory, of ?P tuesday 40000] nz t
  obtain e' where "date e' = tuesday"
    and "trackDailyPnL ?P tuesday 40000 mondayHistory = mondayHistory @ [e']"
    by blast
  then have "map date (trackDailyPnL ?P tuesday 40000 mondayHistory) = map date mondayHistory @ [tuesday]"
    by simp
  then have "map date (trackDailyPnL ?P tuesday 40000 mondayHistory) = [monday, tuesday]"
    by (simp add: mondayHistory_eval)
  with l reachable_mondayHistory show ?thesis
    by (simp add: mondayHistory_eval)
qed

text \<open>
  C7 as it is stated fails for a total value of 0: a sample on Tuesday, which has no entry,
  appends nothing.
\<close>

theorem no_entry_when_value_is_zero:
  "tuesday \<notin> set (map date mondayHistory)
   \<and> trackDailyPnL (calculatePositions noPrices scenarioA) tuesday 40000 mondayHistory = mondayHistory"
  by code_simp

section \<open>The ledger\<close>

text \<open>
  C3, as amended. \<open>addTransaction\<close> has no error result. It leaves the ledger as it is
  exactly when the symbol, the amount or the price of the form is empty. Otherwise it appends
  one transaction with the upper-cased symbol, the parsed amount and price and their product
  as total value, whatever the sign of the amount and of the price.
\<close>

theorem addTransaction_appends_unless_blank:
  "ledger (addTransaction parseFloat now1 now2 st) =
     (if formTokenSymbol (newTransaction st) = [] \<or> formAmount (newTransaction st) = []
         \<or> formPricePerToken (newTransaction st) = []
      then ledger st
      else ledger st @
        [\<lparr> txId = toStringInt now1,
            tokenSymbol = toUpperCase (formTokenSymbol (newTransaction st)),
            txType = formType (newTransaction st),
            amount = parseFloat (formAmount (newTransaction st)),
            pricePerToken = parseFloat (formPricePerToken (newTransaction st)),
            timestamp = now2,
            totalValue = parseFloat (formAmount (newTransaction st))
                         * parseFloat (formPricePerToken (newTransaction st)) \<rparr>])"
  by (simp add: addTransaction_def Let_def)

text \<open>A blank amount leaves the ledger; the amount \<open>-5\<close> is appended as parsed.\<close>

theorem addTransaction_appends_unless_blank_witness:
  "ledger (addTransaction parseDecimal 1700000000000 1700000000001 blankForm) = scenarioA
   \<and> map amount (ledger (addTransaction parseDecimal 1700000000000 1700000000001 negativeForm))
       = [parseDecimal ''-5'']"
  using addTransaction_appends_unless_blank [of parseDecimal 1700000000000 1700000000001 blankForm]
        addTransaction_appends_unless_blank [of parseDecimal 1700000000000 1700000000001 negativeForm]
  by (simp add: blankForm_def negativeForm_def)

text \<open>
  C3 as it is stated fails: a buy of \<open>-5\<close> bitcoin at 10 is appended to the empty ledger.
\<close>

theorem negative_amount_is_appended:
  "ledger (addTransaction parseDecimal 1700000000000 1700000000001 negativeForm) =
     [\<lparr> txId = ''1700000000000'', tokenSymbol = ''BTC'', txType = Buy, amount = - 5,
        pricePerToken = 10, timestamp = 1700000000001, totalValue = - 50 \<rparr>]
   \<and> ledger negativeForm = []"
  by code_simp


end
